theory Spec2Isabelle
  imports Main "HOL-Library.Word"
begin

unbundle bit_operations_syntax

section \<open>The pricing catalog of ec2\_price.go\<close>

text \<open>
  A Go \<^verbatim>\<open>map[string]V\<close> that the program only indexes is a partial function
  \<open>string \<rightharpoonup> V\<close>; indexing a missing key (or a nil map) gives the zero value of
  \<open>V\<close>. A map that the program ranges over is an association list holding its entries
  in the order that one \<^verbatim>\<open>range\<close> statement visits them. Go leaves that order
  unspecified, so the theorems below hold for every list.
\<close>

type_synonym byte = "8 word"

text \<open>A \<^verbatim>\<open>float64\<close> is its IEEE-754 bit pattern (\<^verbatim>\<open>math.Float64bits\<close>).\<close>

type_synonym float64 = "64 word"

record PriceDimension =
  Description :: string
  Unit :: string
  StartingRange :: string
  EndingRange :: string
  PricePerUnit :: "(string \<times> string) list"

record Term =
  OfferTermCode :: string
  TermSKU :: string
  EffectiveDate :: string
  TermAttributesType :: string
  TermAttributes :: "string \<rightharpoonup> string"
  PriceDimensions :: "(string \<times> PriceDimension) list"

record Product =
  SKU :: string
  ProductFamily :: string
  Attributes :: "string \<rightharpoonup> string"

record Offer =
  FormatVersion :: string
  Disclaimer :: string
  OfferCode :: string
  Version :: string
  PublicationDate :: string
  Products :: "(string \<times> Product) list"
  Terms :: "string \<rightharpoonup> (string \<rightharpoonup> (string \<times> Term) list)"

record Price =
  Currency :: string
  Value :: string

text \<open>
  The values of Go's \<^verbatim>\<open>error\<close> that the program can see. The first two are the
  program's own (\<^verbatim>\<open>errors.New\<close> in GetSKU and GetPrice); the others come from the
  file system, \<^verbatim>\<open>encoding/binary\<close>, \<^verbatim>\<open>net/http\<close>, \<^verbatim>\<open>encoding/json\<close>
  and \<^verbatim>\<open>strconv\<close>.
\<close>

datatype error =
    MoreThanOneSKU
  | CouldNotFindPrice
  | ErrNotExist
  | StoreIOError string
  | EOF
  | ErrUnexpectedEOF
  | FetchFailed string
  | MalformedCatalog string
  | InvalidPriceFormat string

definition AWS_LOCATION :: string where
  "AWS_LOCATION = ''US West (Oregon)''"

subsection \<open>GetSKU\<close>

text \<open>\<^verbatim>\<open>product.Attributes[name]\<close>: the empty string when the key is missing.\<close>

definition attribute :: "Product \<Rightarrow> string \<Rightarrow> string" where
  "attribute product name = (case Attributes product name of None \<Rightarrow> [] | Some v \<Rightarrow> v)"

text \<open>The condition of the \<^verbatim>\<open>if\<close> in the loop of GetSKU.\<close>

definition matches :: "Product \<Rightarrow> string \<Rightarrow> string \<Rightarrow> string \<Rightarrow> bool" where
  "matches product instance_type tenancy os =
     (attribute product ''instanceType'' = instance_type \<and>
      attribute product ''location'' = AWS_LOCATION \<and>
      attribute product ''tenancy'' = tenancy \<and>
      attribute product ''operatingSystem'' = os)"

text \<open>
  The loop of GetSKU over the products still to visit; \<open>sku\<close> is the local variable of
  that name, which starts empty.
\<close>

fun GetSKU_range :: "(string \<times> Product) list \<Rightarrow> string \<Rightarrow> string \<Rightarrow> string \<Rightarrow> string
    \<Rightarrow> error + string" where
  "GetSKU_range [] instance_type tenancy os sku = Inr sku"
| "GetSKU_range ((key, product) # rest) instance_type tenancy os sku =
     (if matches product instance_type tenancy os then
        (if sku \<noteq> [] then Inl MoreThanOneSKU
         else GetSKU_range rest instance_type tenancy os (SKU product))
      else GetSKU_range rest instance_type tenancy os sku)"

definition GetSKU :: "Offer \<Rightarrow> string \<Rightarrow> string \<Rightarrow> string \<Rightarrow> error + string" where
  "GetSKU offer instance_type tenancy os =
     GetSKU_range (Products offer) instance_type tenancy os []"

subsection \<open>GetPrice\<close>

text \<open>\<^verbatim>\<open>o.Terms[term][sku]\<close>: a missing key at either level gives the nil map.\<close>

definition Terms_at :: "Offer \<Rightarrow> string \<Rightarrow> string \<Rightarrow> (string \<times> Term) list" where
  "Terms_at offer term sku =
     (case Terms offer term of
        None \<Rightarrow> []
      | Some by_sku \<Rightarrow> (case by_sku sku of None \<Rightarrow> [] | Some ts \<Rightarrow> ts))"

text \<open>The three nested loops of GetPrice, innermost first; each returns at the first pair.\<close>

fun range_PricePerUnit :: "(string \<times> string) list \<Rightarrow> Price option" where
  "range_PricePerUnit [] = None"
| "range_PricePerUnit ((currency, v) # rest) = Some \<lparr>Currency = currency, Value = v\<rparr>"

fun range_PriceDimensions :: "(string \<times> PriceDimension) list \<Rightarrow> Price option" where
  "range_PriceDimensions [] = None"
| "range_PriceDimensions ((key, price_dimension) # rest) =
     (case range_PricePerUnit (PricePerUnit price_dimension) of
        Some price \<Rightarrow> Some price
      | None \<Rightarrow> range_PriceDimensions rest)"

fun range_Terms :: "(string \<times> Term) list \<Rightarrow> Price option" where
  "range_Terms [] = None"
| "range_Terms ((key, term) # rest) =
     (case range_PriceDimensions (PriceDimensions term) of
        Some price \<Rightarrow> Some price
      | None \<Rightarrow> range_Terms rest)"

definition GetPrice :: "Offer \<Rightarrow> string \<Rightarrow> string \<Rightarrow> error + Price" where
  "GetPrice offer sku term =
     (case range_Terms (Terms_at offer term sku) of
        Some price \<Rightarrow> Inr price
      | None \<Rightarrow> Inl CouldNotFindPrice)"

section \<open>The outside world\<close>

text \<open>
  The cache directory is a map from file names to contents and modification times.
  Times are in nanoseconds, as in Go's \<^verbatim>\<open>time\<close> package; the clock stands still
  during one call and is moved by whoever makes the next call. \<open>calls\<close> is a ghost
  trace of what the program asked of its collaborators, oldest first.
\<close>

record file_info =
  content :: "byte list"
  modtime :: int

datatype event =
    EvStat string
  | EvReadFile string
  | EvWriteFile string "byte list"
  | EvHttpGet string
  | EvUnmarshal "byte list"
  | EvGetSKU
  | EvGetPrice
  | EvParseFloat string

record world =
  files :: "string \<rightharpoonup> file_info"
  clock :: int
  calls :: "event list"

text \<open>
  What the libraries answer. \<open>net_response\<close> is the result of \<^verbatim>\<open>http.Get\<close>, and
  inside it the result of \<^verbatim>\<open>ioutil.ReadAll\<close> on the body; \<open>decode_json\<close> is
  \<^verbatim>\<open>json.Unmarshal\<close> into an empty Offer; \<open>parse_float\<close> is
  \<^verbatim>\<open>strconv.ParseFloat(s, 64)\<close>; \<open>md5\<close> is the digest of \<^verbatim>\<open>crypto/md5\<close>;
  \<open>read_fault\<close> and \<open>write_fault\<close> say which files the operating system refuses to
  read or write, and with which error.
\<close>

record env =
  net_response :: "string \<Rightarrow> error + (error + byte list)"
  decode_json :: "byte list \<Rightarrow> error + Offer"
  parse_float :: "string \<Rightarrow> error + float64"
  md5 :: "string \<Rightarrow> byte list"
  read_fault :: "string \<Rightarrow> error option"
  write_fault :: "string \<Rightarrow> error option"

definition record_call :: "event \<Rightarrow> world \<Rightarrow> world" where
  "record_call e w = w\<lparr>calls := calls w @ [e]\<rparr>"

text \<open>
  \<^verbatim>\<open>os.Stat\<close>: the program only asks whether it failed and, if not, for the
  modification time. A file that cannot be examined counts as missing.
\<close>

definition os_Stat :: "string \<Rightarrow> world \<Rightarrow> (error + file_info) \<times> world" where
  "os_Stat name w =
     ((case files w name of None \<Rightarrow> Inl ErrNotExist | Some info \<Rightarrow> Inr info),
      record_call (EvStat name) w)"

definition ioutil_ReadFile :: "env \<Rightarrow> string \<Rightarrow> world \<Rightarrow> (error + byte list) \<times> world" where
  "ioutil_ReadFile env name w =
     ((case read_fault env name of
         Some err \<Rightarrow> Inl err
       | None \<Rightarrow> (case files w name of None \<Rightarrow> Inl ErrNotExist | Some info \<Rightarrow> Inr (content info))),
      record_call (EvReadFile name) w)"

text \<open>
  \<^verbatim>\<open>ioutil.WriteFile\<close> replaces the file and stamps it with the current time. A write
  that the operating system refuses is taken to leave the directory as it was.
\<close>

definition ioutil_WriteFile :: "env \<Rightarrow> string \<Rightarrow> byte list \<Rightarrow> world \<Rightarrow> error option \<times> world" where
  "ioutil_WriteFile env name data w =
     (case write_fault env name of
        Some err \<Rightarrow> (Some err, record_call (EvWriteFile name data) w)
      | None \<Rightarrow>
          (None,
           record_call (EvWriteFile name data)
             (w\<lparr>files := (files w)(name \<mapsto> \<lparr>content = data, modtime = clock w\<rparr>)\<rparr>)))"

definition http_Get :: "env \<Rightarrow> string \<Rightarrow> world \<Rightarrow> (error + (error + byte list)) \<times> world" where
  "http_Get env url w = (net_response env url, record_call (EvHttpGet url) w)"

definition json_Unmarshal :: "env \<Rightarrow> byte list \<Rightarrow> world \<Rightarrow> (error + Offer) \<times> world" where
  "json_Unmarshal env body w = (decode_json env body, record_call (EvUnmarshal body) w)"

definition strconv_ParseFloat :: "env \<Rightarrow> string \<Rightarrow> world \<Rightarrow> (error + float64) \<times> world" where
  "strconv_ParseFloat env s w = (parse_float env s, record_call (EvParseFloat s) w)"

subsection \<open>encoding/binary and encoding/hex\<close>

text \<open>
  \<^verbatim>\<open>binary.LittleEndian.PutUint64\<close> and \<^verbatim>\<open>Uint64\<close>: byte \<open>i\<close> is
  \<^verbatim>\<open>byte(v >> (8*i))\<close>, and the value is the OR of \<^verbatim>\<open>uint64(b[i]) << (8*i)\<close>.
\<close>

definition PutUint64 :: "64 word \<Rightarrow> byte list" where
  "PutUint64 v =
     [ucast v, ucast (drop_bit 8 v), ucast (drop_bit 16 v), ucast (drop_bit 24 v),
      ucast (drop_bit 32 v), ucast (drop_bit 40 v), ucast (drop_bit 48 v),
      ucast (drop_bit 56 v)]"

definition Uint64 :: "byte list \<Rightarrow> 64 word" where
  "Uint64 b =
     ucast (b ! 0) OR push_bit 8 (ucast (b ! 1)) OR push_bit 16 (ucast (b ! 2)) OR
     push_bit 24 (ucast (b ! 3)) OR push_bit 32 (ucast (b ! 4)) OR
     push_bit 40 (ucast (b ! 5)) OR push_bit 48 (ucast (b ! 6)) OR
     push_bit 56 (ucast (b ! 7))"

text \<open>
  \<^verbatim>\<open>binary.Write(buf, binary.LittleEndian, price_f)\<close> into a fresh buffer, and
  \<^verbatim>\<open>binary.Read(buf, binary.LittleEndian, &price_f)\<close> from a reader over the whole
  file: it needs eight bytes (\<^verbatim>\<open>io.ReadFull\<close>) and ignores what follows them.
\<close>

definition binary_Write :: "float64 \<Rightarrow> error + byte list" where
  "binary_Write price_f = Inr (PutUint64 price_f)"

definition binary_Read :: "byte list \<Rightarrow> error + float64" where
  "binary_Read body =
     (if length body = 0 then Inl EOF
      else if length body < 8 then Inl ErrUnexpectedEOF
      else Inr (Uint64 (take 8 body)))"

definition hextable :: string where
  "hextable = ''0123456789abcdef''"

fun hex_EncodeToString :: "byte list \<Rightarrow> string" where
  "hex_EncodeToString [] = []"
| "hex_EncodeToString (b # bs) =
     hextable ! unat (drop_bit 4 b) # hextable ! unat (b AND 15) # hex_EncodeToString bs"

section \<open>The two caches\<close>

definition URL :: string where
  "URL = ''https://pricing.us-east-1.amazonaws.com/offers/v1.0/aws/AmazonEC2/current/index.json''"

definition CACHE_DIR :: string where
  "CACHE_DIR = ''/tmp/.aws_pricing''"

text \<open>In seconds.\<close>

definition MAX_CACHE_AGE :: int where
  "MAX_CACHE_AGE = 86400"

text \<open>
  \<^verbatim>\<open>(err == nil) && (time.Since(stat.ModTime()).Seconds() < MAX_CACHE_AGE)\<close>.
  \<^verbatim>\<open>Seconds()\<close> turns a whole number \<open>d\<close> of nanoseconds into a float64 that is
  below 86400 exactly when \<open>d\<close> is below 86400 * 10^9: doubles near 86400 lie 2^-36
  apart, far less than the nanosecond between two durations, so rounding moves no duration
  across the bound. \<^verbatim>\<open>time.Since\<close> saturates only beyond 292 years, far from the
  bound, so the difference of the two times is taken as it is.
\<close>

definition cache_fresh :: "error + file_info \<Rightarrow> world \<Rightarrow> bool" where
  "cache_fresh stat w =
     (case stat of
        Inl err \<Rightarrow> False
      | Inr info \<Rightarrow> clock w - modtime info < MAX_CACHE_AGE * 1000000000)"

definition GetMD5Hash :: "env \<Rightarrow> string \<Rightarrow> string" where
  "GetMD5Hash env text = hex_EncodeToString (md5 env text)"

text \<open>The fixed file of the catalog, \<^verbatim>\<open>cache_file\<close> in GetOffers.\<close>

definition offers_cache_file :: string where
  "offers_cache_file = CACHE_DIR @ ''/offers''"

definition GetOffers :: "env \<Rightarrow> string \<Rightarrow> world \<Rightarrow> (error + Offer) \<times> world" where
  "GetOffers env url w0 =
     (let cache_file = offers_cache_file;
          (stat, w1) = os_Stat cache_file w0;
          (read, w2) =
            (if cache_fresh stat w1 then ioutil_ReadFile env cache_file w1
             else (case http_Get env url w1 of
                     (Inl err, w) \<Rightarrow> (Inl err, w)
                   | (Inr res, w) \<Rightarrow> (res, w)))
      in case read of
           Inl err \<Rightarrow> (Inl err, w2)
         | Inr body \<Rightarrow>
             (case ioutil_WriteFile env cache_file body w2 of
                (Some err, w3) \<Rightarrow> (Inl err, w3)
              | (None, w3) \<Rightarrow>
                  (case json_Unmarshal env body w3 of
                     (Inl err, w4) \<Rightarrow> (Inl err, w4)
                   | (Inr offer, w4) \<Rightarrow> (Inr offer, w4))))"

text \<open>
  GetEC2Price either returns to its caller, with an error or a price, or ends the
  process in \<^verbatim>\<open>log.Fatalf\<close>.
\<close>

datatype 'a outcome = Return 'a | Fatalf error

text \<open>The file of one query, \<^verbatim>\<open>cache_file\<close> in GetEC2Price.\<close>

definition query_cache_file :: "env \<Rightarrow> string \<Rightarrow> string \<Rightarrow> string \<Rightarrow> string \<Rightarrow> string" where
  "query_cache_file env instance_type tenancy operating_system term =
     CACHE_DIR @ ''/'' @ GetMD5Hash env (instance_type @ tenancy @ operating_system @ term)"

definition GetEC2Price ::
    "env \<Rightarrow> string \<Rightarrow> string \<Rightarrow> string \<Rightarrow> string \<Rightarrow> world \<Rightarrow> (error + float64) outcome \<times> world" where
  "GetEC2Price env instance_type tenancy operating_system term w0 =
     (let cache_file = query_cache_file env instance_type tenancy operating_system term;
          (stat, w1) = os_Stat cache_file w0
      in if cache_fresh stat w1 then
           (case ioutil_ReadFile env cache_file w1 of
              (Inl err, w2) \<Rightarrow> (Return (Inl err), w2)
            | (Inr body, w2) \<Rightarrow>
                (case binary_Read body of
                   Inl err \<Rightarrow> (Return (Inl err), w2)
                 | Inr price_f \<Rightarrow> (Return (Inr price_f), w2)))
         else
           (case GetOffers env URL w1 of
              (Inl err, w2) \<Rightarrow> (Fatalf err, w2)
            | (Inr offer, w2) \<Rightarrow>
                (case GetSKU offer instance_type tenancy operating_system of
                   Inl err \<Rightarrow> (Return (Inl err), record_call EvGetSKU w2)
                 | Inr sku \<Rightarrow>
                     (case GetPrice offer sku term of
                        Inl err \<Rightarrow> (Return (Inl err), record_call EvGetPrice (record_call EvGetSKU w2))
                      | Inr price \<Rightarrow>
                          (case strconv_ParseFloat env (Value price)
                                  (record_call EvGetPrice (record_call EvGetSKU w2)) of
                             (Inl err, w3) \<Rightarrow> (Return (Inl err), w3)
                           | (Inr price_f, w3) \<Rightarrow>
                               (case binary_Write price_f of
                                  Inl err \<Rightarrow> (Return (Inl err), w3)
                                | Inr buf \<Rightarrow>
                                    (case ioutil_WriteFile env cache_file buf w3 of
                                       (Some err, w4) \<Rightarrow> (Return (Inl err), w4)
                                     | (None, w4) \<Rightarrow> (Return (Inr price_f), w4))))))))"

section \<open>Notions used to state the properties\<close>

text \<open>The entries of the catalog that pass the test of GetSKU, in the order visited.\<close>

definition matching_products ::
    "Offer \<Rightarrow> string \<Rightarrow> string \<Rightarrow> string \<Rightarrow> (string \<times> Product) list" where
  "matching_products offer instance_type tenancy os =
     filter (\<lambda>entry. matches (snd entry) instance_type tenancy os) (Products offer)"

text \<open>
  The test both caches make before reading: the file is there and younger than
  MAX\_CACHE\_AGE.
\<close>

definition has_fresh :: "world \<Rightarrow> string \<Rightarrow> bool" where
  "has_fresh w name = cache_fresh (fst (os_Stat name w)) w"

subsection \<open>Concrete catalogs and worlds\<close>

text \<open>A product of the default query, with a given SKU and tenancy.\<close>

definition m4_product :: "string \<Rightarrow> string \<Rightarrow> Product" where
  "m4_product sku tenancy =
     \<lparr>SKU = sku, ProductFamily = ''Compute Instance'',
      Attributes = [''instanceType'' \<mapsto> ''m4.4xlarge'', ''location'' \<mapsto> ''US West (Oregon)'',
                    ''tenancy'' \<mapsto> tenancy, ''operatingSystem'' \<mapsto> ''Linux'']\<rparr>"

text \<open>A term with one price dimension holding the given prices.\<close>

definition priced_term :: "string \<Rightarrow> (string \<times> string) list \<Rightarrow> Term" where
  "priced_term sku prices =
     \<lparr>OfferTermCode = ''JRTCKXETXF'', TermSKU = sku, EffectiveDate = ''2016-01-01T00:00:00Z'',
      TermAttributesType = [], TermAttributes = Map.empty,
      PriceDimensions =
        [(''dim1'', \<lparr>Description = [], Unit = ''Hrs'', StartingRange = ''0'',
                      EndingRange = ''Inf'', PricePerUnit = prices\<rparr>)]\<rparr>"

definition catalog :: "(string \<times> Product) list
    \<Rightarrow> (string \<rightharpoonup> (string \<rightharpoonup> (string \<times> Term) list)) \<Rightarrow> Offer" where
  "catalog products terms =
     \<lparr>FormatVersion = ''v1.0'', Disclaimer = [], OfferCode = ''AmazonEC2'', Version = ''1'',
      PublicationDate = [], Products = products, Terms = terms\<rparr>"

text \<open>The catalog of the scenario: one product ABC at 0.956 USD on demand.\<close>

definition scenario_catalog :: Offer where
  "scenario_catalog =
     catalog [(''ABC'', m4_product ''ABC'' ''Shared'')]
       [''OnDemand'' \<mapsto> [''ABC'' \<mapsto> [(''term1'', priced_term ''ABC'' [(''USD'', ''0.956'')])]]]"

text \<open>
  A catalog whose only product has no SKU, with a price filed under the empty SKU.
\<close>

definition unnamed_sku_catalog :: Offer where
  "unnamed_sku_catalog =
     catalog [(''A'', m4_product [] ''Shared'')]
       [''OnDemand'' \<mapsto> [[] \<mapsto> [(''term1'', priced_term [] [(''USD'', ''0.956'')])]]]"

text \<open>
  A digest to stand in for MD5 where one has to be computed: the first 16 bytes of the
  text, filled up with zeros. It tells apart the queries used below.
\<close>

definition leading_bytes :: "string \<Rightarrow> byte list" where
  "leading_bytes text = take 16 (map (\<lambda>c. of_nat (of_char c)) text @ replicate 16 0)"

text \<open>
  Libraries that work: the network delivers the two bytes \<^verbatim>\<open>{}\<close>, which decode to
  the given catalog; the price string 0.956 parses to its double.
\<close>

definition serving :: "Offer \<Rightarrow> env" where
  "serving offer =
     \<lparr>net_response = (\<lambda>url. Inr (Inr [123, 125])),
      decode_json = (\<lambda>body. Inr offer),
      parse_float =
        (\<lambda>s. if s = ''0.956'' then Inr 0x3FEE978D4FDF3B64 else Inl (InvalidPriceFormat s)),
      md5 = leading_bytes,
      read_fault = (\<lambda>name. None),
      write_fault = (\<lambda>name. None)\<rparr>"

text \<open>An empty cache directory at a given time.\<close>

definition empty_cache :: "int \<Rightarrow> world" where
  "empty_cache now = \<lparr>files = Map.empty, clock = now, calls = []\<rparr>"

section \<open>The resolver\<close>

subsection \<open>What the loops of GetPrice find\<close>

lemma range_PricePerUnit_None: "range_PricePerUnit ps = None \<longleftrightarrow> ps = []"
  by (cases ps) auto

lemma range_PricePerUnit_Some:
  "range_PricePerUnit ps = Some price \<Longrightarrow> (Currency price, Value price) \<in> set ps"
  by (cases ps) auto

lemma range_PriceDimensions_None:
  "range_PriceDimensions ds = None \<longleftrightarrow> (\<forall>entry \<in> set ds. PricePerUnit (snd entry) = [])"
  by (induction ds rule: range_PriceDimensions.induct)
    (auto simp: range_PricePerUnit_None split: option.splits)

lemma range_PriceDimensions_Some:
  "range_PriceDimensions ds = Some price \<Longrightarrow>
     \<exists>entry \<in> set ds. (Currency price, Value price) \<in> set (PricePerUnit (snd entry))"
  by (induction ds rule: range_PriceDimensions.induct)
    (auto split: option.splits dest: range_PricePerUnit_Some)

lemma range_Terms_None:
  "range_Terms ts = None \<longleftrightarrow>
     (\<forall>t \<in> set ts. \<forall>d \<in> set (PriceDimensions (snd t)). PricePerUnit (snd d) = [])"
proof (induction ts rule: range_Terms.induct)
  case 1
  show ?case by simp
next
  case (2 key t rest)
  show ?case
  proof (cases "range_PriceDimensions (PriceDimensions t)")
    case None
    then have "\<forall>d \<in> set (PriceDimensions t). PricePerUnit (snd d) = []"
      by (simp add: range_PriceDimensions_None)
    moreover have "range_Terms ((key, t) # rest) = range_Terms rest"
      using None by simp
    ultimately show ?thesis using 2 [OF None] by simp
  next
    case (Some price)
    then have "\<not> (\<forall>d \<in> set (PriceDimensions t). PricePerUnit (snd d) = [])"
      by (simp add: range_PriceDimensions_None [symmetric])
    with Some show ?thesis by simp
  qed
qed

lemma range_Terms_Some:
  "range_Terms ts = Some price \<Longrightarrow>
     \<exists>t \<in> set ts. \<exists>d \<in> set (PriceDimensions (snd t)).
       (Currency price, Value price) \<in> set (PricePerUnit (snd d))"
  by (induction ts rule: range_Terms.induct)
    (auto split: option.splits dest: range_PriceDimensions_Some)

text \<open>
  C7: GetPrice returns a (currency, price) pair that stands in a PricePerUnit mapping
  reachable under \<^verbatim>\<open>Terms[term][sku]\<close>; it fails, and then with the price-not-found
  error, exactly when no such pair exists (every reachable PricePerUnit is empty). That
  covers a term name missing from Terms and a SKU missing under the term name, where Go's
  index gives the nil map instead of panicking.
\<close>

theorem GetPrice_reachable_pair_or_not_found:
  "(\<forall>price. GetPrice offer sku tn = Inr price \<longrightarrow>
      (\<exists>t \<in> set (Terms_at offer tn sku). \<exists>d \<in> set (PriceDimensions (snd t)).
         (Currency price, Value price) \<in> set (PricePerUnit (snd d)))) \<and>
   (\<forall>err. GetPrice offer sku tn = Inl err \<longrightarrow> err = CouldNotFindPrice) \<and>
   ((GetPrice offer sku tn = Inl CouldNotFindPrice) =
      (\<forall>t \<in> set (Terms_at offer tn sku). \<forall>d \<in> set (PriceDimensions (snd t)).
         PricePerUnit (snd d) = [])) \<and>
   (Terms offer tn = None \<longrightarrow> GetPrice offer sku tn = Inl CouldNotFindPrice) \<and>
   (\<forall>by_sku. Terms offer tn = Some by_sku \<and> by_sku sku = None \<longrightarrow>
      GetPrice offer sku tn = Inl CouldNotFindPrice)"
proof (cases "range_Terms (Terms_at offer tn sku)")
  case None
  then have "GetPrice offer sku tn = Inl CouldNotFindPrice"
    by (simp add: GetPrice_def)
  moreover from None
  have "\<forall>t \<in> set (Terms_at offer tn sku). \<forall>d \<in> set (PriceDimensions (snd t)).
      PricePerUnit (snd d) = []"
    by (simp add: range_Terms_None)
  ultimately show ?thesis by simp
next
  case (Some found)
  then have result: "GetPrice offer sku tn = Inr found"
    by (simp add: GetPrice_def)
  from Some have pair: "\<exists>t \<in> set (Terms_at offer tn sku). \<exists>d \<in> set (PriceDimensions (snd t)).
      (Currency found, Value found) \<in> set (PricePerUnit (snd d))"
    by (rule range_Terms_Some)
  then have some: "\<not> (\<forall>t \<in> set (Terms_at offer tn sku). \<forall>d \<in> set (PriceDimensions (snd t)).
      PricePerUnit (snd d) = [])"
    by fastforce
  then have "Terms_at offer tn sku \<noteq> []"
    by auto
  then have "Terms offer tn \<noteq> None"
    and "\<forall>by_sku. Terms offer tn = Some by_sku \<longrightarrow> by_sku sku \<noteq> None"
    by (auto simp: Terms_at_def split: option.splits)
  with result pair some show ?thesis by auto
qed

text \<open>
  In the catalog of the scenario the pair found for ABC on demand is (USD, 0.956), and
  no term called Reserved exists.
\<close>

theorem GetPrice_reachable_pair_or_not_found_witness:
  "GetPrice scenario_catalog ''ABC'' ''OnDemand'' = Inr \<lparr>Currency = ''USD'', Value = ''0.956''\<rparr> \<and>
   (\<exists>t \<in> set (Terms_at scenario_catalog ''OnDemand'' ''ABC''). \<exists>d \<in> set (PriceDimensions (snd t)).
      (''USD'', ''0.956'') \<in> set (PricePerUnit (snd d))) \<and>
   Terms scenario_catalog ''Reserved'' = None \<and>
   GetPrice scenario_catalog ''ABC'' ''Reserved'' = Inl CouldNotFindPrice"
proof -
  have found: "GetPrice scenario_catalog ''ABC'' ''OnDemand'' = Inr \<lparr>Currency = ''USD'', Value = ''0.956''\<rparr>"
    by (simp add: GetPrice_def Terms_at_def scenario_catalog_def catalog_def priced_term_def)
  have absent: "Terms scenario_catalog ''Reserved'' = None"
    by (simp add: scenario_catalog_def catalog_def)
  from found absent
    GetPrice_reachable_pair_or_not_found [of scenario_catalog "''ABC''" "''OnDemand''"]
    GetPrice_reachable_pair_or_not_found [of scenario_catalog "''ABC''" "''Reserved''"]
  show ?thesis by simp
qed

subsection \<open>What the loop of GetSKU returns\<close>

lemma GetSKU_range_filter:
  "GetSKU_range ps it te os sku =
     GetSKU_range (filter (\<lambda>entry. matches (snd entry) it te os) ps) it te os sku"
  by (induction ps it te os sku rule: GetSKU_range.induct) auto

lemma GetSKU_range_all_match:
  "\<forall>entry \<in> set ms. matches (snd entry) it te os \<Longrightarrow>
   GetSKU_range ms it te os sku =
     (if ms = [] then Inr sku
      else if sku \<noteq> [] \<or> (\<exists>entry \<in> set (butlast ms). SKU (snd entry) \<noteq> [])
        then Inl MoreThanOneSKU
      else Inr (SKU (snd (last ms))))"
proof (induction ms arbitrary: sku)
  case Nil
  show ?case by simp
next
  case (Cons entry ms)
  obtain key product where entry: "entry = (key, product)" by (cases entry)
  from Cons.prems have m: "matches product it te os" and rest: "\<forall>e \<in> set ms. matches (snd e) it te os"
    by (simp_all add: entry)
  show ?case
  proof (cases "sku = []")
    case False
    with m show ?thesis by (simp add: entry)
  next
    case True
    with m have "GetSKU_range (entry # ms) it te os sku = GetSKU_range ms it te os (SKU product)"
      by (simp add: entry)
    also have "\<dots> = (if ms = [] then Inr (SKU product)
      else if SKU product \<noteq> [] \<or> (\<exists>e \<in> set (butlast ms). SKU (snd e) \<noteq> [])
        then Inl MoreThanOneSKU
      else Inr (SKU (snd (last ms))))"
      by (rule Cons.IH [OF rest])
    finally show ?thesis using True by (simp add: entry)
  qed
qed

lemma GetSKU_eq:
  "GetSKU offer it te os =
     (let ms = matching_products offer it te os in
      if ms = [] then Inr []
      else if \<exists>entry \<in> set (butlast ms). SKU (snd entry) \<noteq> [] then Inl MoreThanOneSKU
      else Inr (SKU (snd (last ms))))"
proof -
  have "\<forall>entry \<in> set (matching_products offer it te os). matches (snd entry) it te os"
    by (simp add: matching_products_def)
  from GetSKU_range_all_match [OF this, of "[]"] show ?thesis
    unfolding GetSKU_def Let_def
    by (subst GetSKU_range_filter) (simp add: matching_products_def)
qed

text \<open>
  C1: the catalog below has two products, under the keys A and B, that both pass the four
  tests and whose SKU field is empty; GetSKU returns the empty SKU and no error. When only
  the first visited of two matching products has an empty SKU, GetSKU returns the SKU of
  the second.
\<close>

theorem GetSKU_two_matches_without_error:
  "length (matching_products
       (catalog [(''A'', m4_product [] ''Shared''), (''B'', m4_product [] ''Shared'')] Map.empty)
       ''m4.4xlarge'' ''Shared'' ''Linux'') = 2 \<and>
   GetSKU (catalog [(''A'', m4_product [] ''Shared''), (''B'', m4_product [] ''Shared'')] Map.empty)
       ''m4.4xlarge'' ''Shared'' ''Linux'' = Inr [] \<and>
   length (matching_products
       (catalog [(''A'', m4_product [] ''Shared''), (''B'', m4_product ''B'' ''Shared'')] Map.empty)
       ''m4.4xlarge'' ''Shared'' ''Linux'') = 2 \<and>
   GetSKU (catalog [(''A'', m4_product [] ''Shared''), (''B'', m4_product ''B'' ''Shared'')] Map.empty)
       ''m4.4xlarge'' ''Shared'' ''Linux'' = Inr ''B''"
  by (simp add: GetSKU_def matching_products_def matches_def attribute_def AWS_LOCATION_def
      catalog_def m4_product_def)

section \<open>The cached price\<close>

subsection \<open>The eight bytes of a price\<close>

lemma byte_of_bit:
  "bit (push_bit k (ucast (ucast (drop_bit k (v :: 64 word)) :: byte)) :: 64 word) n
     = (k \<le> n \<and> n < k + 8 \<and> n < 64 \<and> bit v n)"
  by (auto simp: bit_push_bit_iff bit_ucast_iff bit_drop_bit_eq)

lemma Uint64_PutUint64: "Uint64 (PutUint64 v) = v"
proof (rule bit_word_eqI)
  fix n :: nat
  assume n: "n < LENGTH(64)"
  have "bit (Uint64 (PutUint64 v)) n =
     (bit (push_bit 0 (ucast (ucast (drop_bit 0 v) :: byte)) :: 64 word) n \<or>
      bit (push_bit 8 (ucast (ucast (drop_bit 8 v) :: byte)) :: 64 word) n \<or>
      bit (push_bit 16 (ucast (ucast (drop_bit 16 v) :: byte)) :: 64 word) n \<or>
      bit (push_bit 24 (ucast (ucast (drop_bit 24 v) :: byte)) :: 64 word) n \<or>
      bit (push_bit 32 (ucast (ucast (drop_bit 32 v) :: byte)) :: 64 word) n \<or>
      bit (push_bit 40 (ucast (ucast (drop_bit 40 v) :: byte)) :: 64 word) n \<or>
      bit (push_bit 48 (ucast (ucast (drop_bit 48 v) :: byte)) :: 64 word) n \<or>
      bit (push_bit 56 (ucast (ucast (drop_bit 56 v) :: byte)) :: 64 word) n)"
    by (simp add: Uint64_def PutUint64_def bit_or_iff)
  also have "\<dots> = bit v n"
    unfolding byte_of_bit using n by auto
  finally show "bit (Uint64 (PutUint64 v)) n = bit v n" .
qed


lemma length_PutUint64: "length (PutUint64 v) = 8"
  by (simp add: PutUint64_def)

lemma binary_Read_PutUint64: "binary_Read (PutUint64 v) = Inr v"
proof -
  have "take 8 (PutUint64 v) = PutUint64 v"
    by (simp add: length_PutUint64)
  then show ?thesis
    using length_PutUint64 [of v] by (auto simp: binary_Read_def Uint64_PutUint64)
qed


subsection \<open>The branches of GetOffers and GetEC2Price\<close>

lemmas io_defs =
  os_Stat_def ioutil_ReadFile_def ioutil_WriteFile_def http_Get_def json_Unmarshal_def
  strconv_ParseFloat_def record_call_def cache_fresh_def has_fresh_def

lemma has_fresh_iff:
  "has_fresh w name \<longleftrightarrow>
     (\<exists>info. files w name = Some info \<and> clock w - modtime info < MAX_CACHE_AGE * 1000000000)"
  by (auto simp: io_defs split: option.splits)

lemma cache_fresh_Stat:
  "cache_fresh (fst (os_Stat name w)) (snd (os_Stat name w)) = has_fresh w name"
  by (simp add: io_defs split: option.splits sum.splits)

text \<open>GetOffers, branch by branch.\<close>

lemma GetOffers_fresh:
  assumes "files w offers_cache_file = Some info"
    and "clock w - modtime info < MAX_CACHE_AGE * 1000000000"
  shows "GetOffers env url w =
    (case read_fault env offers_cache_file of
       Some err \<Rightarrow>
         (Inl err, w\<lparr>calls := calls w @ [EvStat offers_cache_file, EvReadFile offers_cache_file]\<rparr>)
     | None \<Rightarrow>
        (case write_fault env offers_cache_file of
           Some err \<Rightarrow>
             (Inl err, w\<lparr>calls := calls w @ [EvStat offers_cache_file, EvReadFile offers_cache_file,
                 EvWriteFile offers_cache_file (content info)]\<rparr>)
         | None \<Rightarrow>
             (decode_json env (content info),
              w\<lparr>files := (files w)(offers_cache_file \<mapsto> \<lparr>content = content info, modtime = clock w\<rparr>),
                calls := calls w @ [EvStat offers_cache_file, EvReadFile offers_cache_file,
                 EvWriteFile offers_cache_file (content info), EvUnmarshal (content info)]\<rparr>)))"
  using assms
  by (simp add: GetOffers_def io_defs split: option.splits sum.splits)

lemma GetOffers_stale:
  assumes "\<not> has_fresh w offers_cache_file"
  shows "GetOffers env url w =
    (case net_response env url of
       Inl err \<Rightarrow> (Inl err, w\<lparr>calls := calls w @ [EvStat offers_cache_file, EvHttpGet url]\<rparr>)
     | Inr (Inl err) \<Rightarrow> (Inl err, w\<lparr>calls := calls w @ [EvStat offers_cache_file, EvHttpGet url]\<rparr>)
     | Inr (Inr body) \<Rightarrow>
        (case write_fault env offers_cache_file of
           Some err \<Rightarrow>
             (Inl err, w\<lparr>calls := calls w @ [EvStat offers_cache_file, EvHttpGet url,
                 EvWriteFile offers_cache_file body]\<rparr>)
         | None \<Rightarrow>
             (decode_json env body,
              w\<lparr>files := (files w)(offers_cache_file \<mapsto> \<lparr>content = body, modtime = clock w\<rparr>),
                calls := calls w @ [EvStat offers_cache_file, EvHttpGet url,
                 EvWriteFile offers_cache_file body, EvUnmarshal body]\<rparr>)))"
  using assms
  by (auto simp: GetOffers_def io_defs split: option.splits sum.splits)


lemma GetOffers_cases:
  obtains (fresh) info where "files w offers_cache_file = Some info"
      and "clock w - modtime info < MAX_CACHE_AGE * 1000000000"
    | (stale) "\<not> has_fresh w offers_cache_file"
  by (auto simp: has_fresh_iff)

lemma GetOffers_clock: "clock (snd (GetOffers env url w)) = clock w"
proof (cases w rule: GetOffers_cases)
  case (fresh info)
  then show ?thesis
    by (simp add: GetOffers_fresh split: option.splits)
next
  case stale
  then show ?thesis
    by (simp add: GetOffers_stale split: option.splits sum.splits)
qed

lemma GetOffers_files:
  "name \<noteq> offers_cache_file \<Longrightarrow> files (snd (GetOffers env url w)) name = files w name"
proof (cases w rule: GetOffers_cases)
  case (fresh info)
  assume "name \<noteq> offers_cache_file"
  with fresh show ?thesis
    by (simp add: GetOffers_fresh split: option.splits)
next
  case stale
  assume "name \<noteq> offers_cache_file"
  with stale show ?thesis
    by (simp add: GetOffers_stale split: option.splits sum.splits)
qed

lemma GetOffers_calls:
  "\<exists>evs. calls (snd (GetOffers env url w)) = calls w @ EvStat offers_cache_file # evs \<and>
     (\<forall>name data. EvWriteFile name data \<in> set evs \<longrightarrow> name = offers_cache_file)"
proof (cases w rule: GetOffers_cases)
  case (fresh info)
  then show ?thesis
    by (simp add: GetOffers_fresh split: option.splits)
next
  case stale
  then show ?thesis
    by (simp add: GetOffers_stale split: option.splits sum.splits)
qed

lemma hextable_not_o: "n < 16 \<Longrightarrow> hextable ! n \<noteq> CHR ''o''"
proof -
  assume "n < 16"
  then have "hextable ! n \<in> set hextable"
    by (intro nth_mem) (simp add: hextable_def)
  then show ?thesis
    by (auto simp: hextable_def)
qed

lemma high_nibble_less: "unat (drop_bit 4 (b :: byte)) < 16"
proof -
  have "unat (drop_bit 4 b) = unat b div 2 ^ 4"
    by (simp add: drop_bit_eq_div unat_div)
  moreover have "unat b < 2 ^ 8"
    using unsigned_less [of b] by simp
  ultimately show ?thesis by simp
qed

lemma hex_EncodeToString_neq_offers: "hex_EncodeToString bs \<noteq> ''offers''"
  by (cases bs) (simp_all add: hextable_not_o [OF high_nibble_less])

lemma query_cache_file_neq_offers [simp]:
  "query_cache_file env it te os tm \<noteq> offers_cache_file"
  by (simp add: query_cache_file_def offers_cache_file_def GetMD5Hash_def
      hex_EncodeToString_neq_offers)


text \<open>GetEC2Price, branch by branch.\<close>

lemma GetEC2Price_cached:
  assumes "files w (query_cache_file env it te os tm) = Some info"
    and "clock w - modtime info < MAX_CACHE_AGE * 1000000000"
  shows "GetEC2Price env it te os tm w =
    (Return (case read_fault env (query_cache_file env it te os tm) of
               Some err \<Rightarrow> Inl err
             | None \<Rightarrow> binary_Read (content info)),
     w\<lparr>calls := calls w @ [EvStat (query_cache_file env it te os tm),
                              EvReadFile (query_cache_file env it te os tm)]\<rparr>)"
  using assms
  by (auto simp: GetEC2Price_def Let_def io_defs split: option.splits sum.splits)

lemma GetEC2Price_miss:
  assumes "\<not> has_fresh w (query_cache_file env it te os tm)"
  shows "GetEC2Price env it te os tm w =
    (case GetOffers env URL (w\<lparr>calls := calls w @ [EvStat (query_cache_file env it te os tm)]\<rparr>) of
       (Inl err, w2) \<Rightarrow> (Fatalf err, w2)
     | (Inr offer, w2) \<Rightarrow>
        (case GetSKU offer it te os of
           Inl err \<Rightarrow> (Return (Inl err), w2\<lparr>calls := calls w2 @ [EvGetSKU]\<rparr>)
         | Inr sku \<Rightarrow>
            (case GetPrice offer sku tm of
               Inl err \<Rightarrow> (Return (Inl err), w2\<lparr>calls := calls w2 @ [EvGetSKU, EvGetPrice]\<rparr>)
             | Inr price \<Rightarrow>
                (case parse_float env (Value price) of
                   Inl err \<Rightarrow>
                     (Return (Inl err),
                      w2\<lparr>calls := calls w2 @ [EvGetSKU, EvGetPrice, EvParseFloat (Value price)]\<rparr>)
                 | Inr price_f \<Rightarrow>
                    (case write_fault env (query_cache_file env it te os tm) of
                       Some err \<Rightarrow>
                         (Return (Inl err),
                          w2\<lparr>calls := calls w2 @ [EvGetSKU, EvGetPrice, EvParseFloat (Value price),
                            EvWriteFile (query_cache_file env it te os tm) (PutUint64 price_f)]\<rparr>)
                     | None \<Rightarrow>
                         (Return (Inr price_f),
                          w2\<lparr>files := (files w2)(query_cache_file env it te os tm \<mapsto>
                                \<lparr>content = PutUint64 price_f, modtime = clock w2\<rparr>),
                            calls := calls w2 @ [EvGetSKU, EvGetPrice, EvParseFloat (Value price),
                              EvWriteFile (query_cache_file env it te os tm) (PutUint64 price_f)]\<rparr>))))))"
  using assms
  by (auto simp: GetEC2Price_def Let_def io_defs binary_Write_def split: option.splits sum.splits prod.splits)


lemma GetEC2Price_success_blob:
  assumes "GetEC2Price env it te os tm w = (Return (Inr price_f), w1)"
  shows "\<exists>info. files w1 (query_cache_file env it te os tm) = Some info \<and>
           binary_Read (content info) = Inr price_f"
proof (cases "has_fresh w (query_cache_file env it te os tm)")
  case True
  then obtain info where info: "files w (query_cache_file env it te os tm) = Some info"
      "clock w - modtime info < MAX_CACHE_AGE * 1000000000"
    by (auto simp: has_fresh_iff)
  from assms show ?thesis
    unfolding GetEC2Price_cached [OF info]
    by (auto simp: info split: option.splits)
next
  case False
  obtain r w2 where offers:
    "GetOffers env URL (w\<lparr>calls := calls w @ [EvStat (query_cache_file env it te os tm)]\<rparr>) = (r, w2)"
    by (cases "GetOffers env URL (w\<lparr>calls := calls w @ [EvStat (query_cache_file env it te os tm)]\<rparr>)")
  from assms binary_Read_PutUint64 [of price_f] show ?thesis
    unfolding GetEC2Price_miss [OF False] offers
    by (auto split: option.splits sum.splits)
qed


text \<open>
  C2: when the file of the query is there and younger than 86400 seconds, GetEC2Price
  returns what the eight-byte little-endian decoding of its contents gives (or the error
  of the read), and asks for nothing but the stat and the read of that file: no fetch, no
  decoding of a catalog, no scan. So when a call has returned a price and the file it
  left is still fresh at the next call, that call returns the same 64 bits, again
  without a fetch.
\<close>

theorem GetEC2Price_fresh_blob_served:
  "(\<forall>info. files w (query_cache_file env it te os tm) = Some info \<and>
        clock w - modtime info < 86400 * 1000000000 \<longrightarrow>
      GetEC2Price env it te os tm w =
        (Return (case read_fault env (query_cache_file env it te os tm) of
                   Some err \<Rightarrow> Inl err
                 | None \<Rightarrow> binary_Read (content info)),
         w\<lparr>calls := calls w @ [EvStat (query_cache_file env it te os tm),
                                  EvReadFile (query_cache_file env it te os tm)]\<rparr>) \<and>
      (read_fault env (query_cache_file env it te os tm) = None \<and> 8 \<le> length (content info) \<longrightarrow>
         fst (GetEC2Price env it te os tm w) = Return (Inr (Uint64 (take 8 (content info)))))) \<and>
   (\<forall>price_f w1 w2.
      GetEC2Price env it te os tm w = (Return (Inr price_f), w1) \<and>
      files w2 (query_cache_file env it te os tm) = files w1 (query_cache_file env it te os tm) \<and>
      has_fresh w2 (query_cache_file env it te os tm) \<longrightarrow>
      GetEC2Price env it te os tm w2 =
        (Return (case read_fault env (query_cache_file env it te os tm) of
                   Some err \<Rightarrow> Inl err
                 | None \<Rightarrow> Inr price_f),
         w2\<lparr>calls := calls w2 @ [EvStat (query_cache_file env it te os tm),
                                    EvReadFile (query_cache_file env it te os tm)]\<rparr>))"
proof (intro conjI allI impI)
  fix info
  assume "files w (query_cache_file env it te os tm) = Some info \<and>
      clock w - modtime info < 86400 * 1000000000"
  then have info: "files w (query_cache_file env it te os tm) = Some info"
      "clock w - modtime info < MAX_CACHE_AGE * 1000000000"
    by (simp_all add: MAX_CACHE_AGE_def)
  show "GetEC2Price env it te os tm w =
        (Return (case read_fault env (query_cache_file env it te os tm) of
                   Some err \<Rightarrow> Inl err
                 | None \<Rightarrow> binary_Read (content info)),
         w\<lparr>calls := calls w @ [EvStat (query_cache_file env it te os tm),
                                  EvReadFile (query_cache_file env it te os tm)]\<rparr>)"
    by (rule GetEC2Price_cached [OF info])
  assume "read_fault env (query_cache_file env it te os tm) = None \<and> 8 \<le> length (content info)"
  then show "fst (GetEC2Price env it te os tm w) = Return (Inr (Uint64 (take 8 (content info))))"
    by (auto simp: GetEC2Price_cached [OF info] binary_Read_def)
next
  fix price_f w1 w2
  assume "GetEC2Price env it te os tm w = (Return (Inr price_f), w1) \<and>
      files w2 (query_cache_file env it te os tm) = files w1 (query_cache_file env it te os tm) \<and>
      has_fresh w2 (query_cache_file env it te os tm)"
  then have first: "GetEC2Price env it te os tm w = (Return (Inr price_f), w1)"
    and same: "files w2 (query_cache_file env it te os tm) = files w1 (query_cache_file env it te os tm)"
    and fresh: "has_fresh w2 (query_cache_file env it te os tm)"
    by simp_all
  from GetEC2Price_success_blob [OF first] obtain info
    where blob: "files w1 (query_cache_file env it te os tm) = Some info"
      and decoded: "binary_Read (content info) = Inr price_f"
    by blast
  from fresh same blob have "clock w2 - modtime info < MAX_CACHE_AGE * 1000000000"
    by (simp add: has_fresh_iff)
  with same blob show "GetEC2Price env it te os tm w2 =
        (Return (case read_fault env (query_cache_file env it te os tm) of
                   Some err \<Rightarrow> Inl err
                 | None \<Rightarrow> Inr price_f),
         w2\<lparr>calls := calls w2 @ [EvStat (query_cache_file env it te os tm),
                                    EvReadFile (query_cache_file env it te os tm)]\<rparr>)"
    by (simp add: GetEC2Price_cached decoded split: option.splits)
qed


subsection \<open>The scenario, evaluated\<close>

lemma serving_simps [simp]:
  "net_response (serving offer) url = Inr (Inr [123, 125])"
  "decode_json (serving offer) body = Inr offer"
  "parse_float (serving offer) ''0.956'' = Inr 0x3FEE978D4FDF3B64"
  "read_fault (serving offer) name = None"
  "write_fault (serving offer) name = None"
  by (simp_all add: serving_def)

lemma scenario_GetSKU:
  "GetSKU scenario_catalog ''m4.4xlarge'' ''Shared'' ''Linux'' = Inr ''ABC''"
  "GetSKU scenario_catalog ''m4.4xlarge'' ''Dedicated'' ''Linux'' = Inr []"
  by (simp_all add: GetSKU_def matches_def attribute_def AWS_LOCATION_def scenario_catalog_def
      catalog_def m4_product_def)

lemma scenario_GetPrice:
  "GetPrice scenario_catalog ''ABC'' ''OnDemand'' = Inr \<lparr>Currency = ''USD'', Value = ''0.956''\<rparr>"
  "GetPrice scenario_catalog [] ''OnDemand'' = Inl CouldNotFindPrice"
  by (simp_all add: GetPrice_def Terms_at_def scenario_catalog_def catalog_def priced_term_def)

lemma empty_cache_not_fresh: "\<not> has_fresh (empty_cache now) name"
  by (simp add: has_fresh_iff empty_cache_def)

lemma scenario_first_call:
  "GetEC2Price (serving scenario_catalog) ''m4.4xlarge'' ''Shared'' ''Linux'' ''OnDemand''
       (empty_cache 0) =
     (Return (Inr 0x3FEE978D4FDF3B64),
      \<lparr>files = [offers_cache_file \<mapsto> \<lparr>content = [123, 125], modtime = 0\<rparr>,
                 query_cache_file (serving scenario_catalog) ''m4.4xlarge'' ''Shared'' ''Linux''
                     ''OnDemand'' \<mapsto>
                   \<lparr>content = PutUint64 0x3FEE978D4FDF3B64, modtime = 0\<rparr>],
       clock = 0,
       calls = [EvStat (query_cache_file (serving scenario_catalog) ''m4.4xlarge'' ''Shared''
                   ''Linux'' ''OnDemand''),
                EvStat offers_cache_file, EvHttpGet URL, EvWriteFile offers_cache_file [123, 125],
                EvUnmarshal [123, 125], EvGetSKU, EvGetPrice, EvParseFloat ''0.956'',
                EvWriteFile (query_cache_file (serving scenario_catalog) ''m4.4xlarge'' ''Shared''
                   ''Linux'' ''OnDemand'') (PutUint64 0x3FEE978D4FDF3B64)]\<rparr>)"
proof -
  have "\<not> has_fresh (empty_cache 0\<lparr>calls := calls (empty_cache 0) @
      [EvStat (query_cache_file (serving scenario_catalog) ''m4.4xlarge'' ''Shared'' ''Linux''
         ''OnDemand'')]\<rparr>) offers_cache_file"
    by (simp add: has_fresh_iff empty_cache_def)
  then show ?thesis
    by (simp add: GetEC2Price_miss [OF empty_cache_not_fresh] GetOffers_stale scenario_GetSKU
        scenario_GetPrice)
      (simp add: empty_cache_def)
qed

lemma PutUint64_example: "PutUint64 0x3FEE978D4FDF3B64 = [100, 59, 223, 79, 141, 151, 238, 63]"
  by (simp add: PutUint64_def)

text \<open>
  The first call of the scenario on an empty cache returns 0.956; an hour later the same
  call is served from the file.
\<close>

theorem GetEC2Price_fresh_blob_served_witness:
  "fst (GetEC2Price (serving scenario_catalog) ''m4.4xlarge'' ''Shared'' ''Linux'' ''OnDemand''
         (empty_cache 0)) = Return (Inr 0x3FEE978D4FDF3B64) \<and>
   has_fresh
     ((snd (GetEC2Price (serving scenario_catalog) ''m4.4xlarge'' ''Shared'' ''Linux'' ''OnDemand''
         (empty_cache 0)))\<lparr>clock := 3600000000000\<rparr>)
     (query_cache_file (serving scenario_catalog) ''m4.4xlarge'' ''Shared'' ''Linux'' ''OnDemand'') \<and>
   GetEC2Price (serving scenario_catalog) ''m4.4xlarge'' ''Shared'' ''Linux'' ''OnDemand''
      ((snd (GetEC2Price (serving scenario_catalog) ''m4.4xlarge'' ''Shared'' ''Linux'' ''OnDemand''
         (empty_cache 0)))\<lparr>clock := 3600000000000\<rparr>) =
     (Return (Inr 0x3FEE978D4FDF3B64),
      (snd (GetEC2Price (serving scenario_catalog) ''m4.4xlarge'' ''Shared'' ''Linux'' ''OnDemand''
         (empty_cache 0)))
        \<lparr>clock := 3600000000000,
         calls := calls (snd (GetEC2Price (serving scenario_catalog) ''m4.4xlarge'' ''Shared''
             ''Linux'' ''OnDemand'' (empty_cache 0))) @
           [EvStat (query_cache_file (serving scenario_catalog) ''m4.4xlarge'' ''Shared'' ''Linux''
              ''OnDemand''),
            EvReadFile (query_cache_file (serving scenario_catalog) ''m4.4xlarge'' ''Shared''
              ''Linux'' ''OnDemand'')]\<rparr>)"
proof -
  let ?w1 = "snd (GetEC2Price (serving scenario_catalog) ''m4.4xlarge'' ''Shared'' ''Linux''
    ''OnDemand'' (empty_cache 0))"
  let ?f = "query_cache_file (serving scenario_catalog) ''m4.4xlarge'' ''Shared'' ''Linux''
    ''OnDemand''"
  have first: "GetEC2Price (serving scenario_catalog) ''m4.4xlarge'' ''Shared'' ''Linux''
      ''OnDemand'' (empty_cache 0) = (Return (Inr 0x3FEE978D4FDF3B64), ?w1)"
    by (simp add: scenario_first_call)
  have fresh: "has_fresh (?w1\<lparr>clock := 3600000000000\<rparr>) ?f"
    by (simp add: scenario_first_call has_fresh_iff MAX_CACHE_AGE_def)
  have second: "GetEC2Price (serving scenario_catalog) ''m4.4xlarge'' ''Shared'' ''Linux''
      ''OnDemand'' (?w1\<lparr>clock := 3600000000000\<rparr>) =
    (Return (Inr 0x3FEE978D4FDF3B64),
     ?w1\<lparr>clock := 3600000000000, calls := calls ?w1 @ [EvStat ?f, EvReadFile ?f]\<rparr>)"
    using first fresh
      GetEC2Price_fresh_blob_served [THEN conjunct2, rule_format,
        where w = "empty_cache 0" and env = "serving scenario_catalog" and it = "''m4.4xlarge''"
          and te = "''Shared''" and os = "''Linux''" and tm = "''OnDemand''"
          and price_f = "0x3FEE978D4FDF3B64" and ?w1.0 = ?w1
          and ?w2.0 = "?w1\<lparr>clock := 3600000000000\<rparr>"]
    by simp
  have "fst (GetEC2Price (serving scenario_catalog) ''m4.4xlarge'' ''Shared'' ''Linux''
      ''OnDemand'' (empty_cache 0)) = Return (Inr 0x3FEE978D4FDF3B64)"
    by (simp add: scenario_first_call)
  with fresh second show ?thesis
    by blast
qed

subsection \<open>Failures on the path through the catalog\<close>

lemma GetEC2Price_miss_calls:
  assumes "\<not> has_fresh w (query_cache_file env it te os tm)"
  shows "\<exists>evs. calls (snd (GetEC2Price env it te os tm w)) =
     calls w @ EvStat (query_cache_file env it te os tm) # EvStat offers_cache_file # evs"
proof -
  let ?w0 = "w\<lparr>calls := calls w @ [EvStat (query_cache_file env it te os tm)]\<rparr>"
  obtain r w2 where offers: "GetOffers env URL ?w0 = (r, w2)"
    by (cases "GetOffers env URL ?w0")
  from GetOffers_calls [of env URL ?w0] offers obtain evs
    where "calls w2 = calls w @ EvStat (query_cache_file env it te os tm) # EvStat offers_cache_file # evs"
    by auto
  then show ?thesis
    unfolding GetEC2Price_miss [OF assms] offers
    by (auto split: option.splits sum.splits)
qed

lemma GetEC2Price_failure_frame:
  assumes miss: "\<not> has_fresh w (query_cache_file env it te os tm)"
    and writable: "write_fault env (query_cache_file env it te os tm) = None"
    and result: "GetEC2Price env it te os tm w = (r, w')"
    and failure: "\<forall>price_f. r \<noteq> Return (Inr price_f)"
  shows "files w' (query_cache_file env it te os tm) = files w (query_cache_file env it te os tm)"
    and "clock w' = clock w"
    and "\<exists>evs. calls w' = calls w @ evs \<and>
           (\<forall>data. EvWriteFile (query_cache_file env it te os tm) data \<notin> set evs)"
proof -
  let ?f = "query_cache_file env it te os tm"
  let ?w0 = "w\<lparr>calls := calls w @ [EvStat ?f]\<rparr>"
  obtain ro w2 where offers: "GetOffers env URL ?w0 = (ro, w2)"
    by (cases "GetOffers env URL ?w0")
  have files2: "files w2 ?f = files w ?f"
    using GetOffers_files [of ?f env URL ?w0] offers by simp
  have clock2: "clock w2 = clock w"
    using GetOffers_clock [of env URL ?w0] offers by simp
  from GetOffers_calls [of env URL ?w0] offers obtain evs
    where calls2: "calls w2 = calls w @ EvStat ?f # EvStat offers_cache_file # evs"
      and writes: "\<forall>name data. EvWriteFile name data \<in> set evs \<longrightarrow> name = offers_cache_file"
    by auto
  from writes have nowrite: "\<forall>data. EvWriteFile ?f data \<notin> set evs"
    by auto
  from result failure writable
  have w': "files w' = files w2 \<and> clock w' = clock w2 \<and>
     (calls w' = calls w2 \<or> calls w' = calls w2 @ [EvGetSKU] \<or>
      calls w' = calls w2 @ [EvGetSKU, EvGetPrice] \<or>
      (\<exists>s. calls w' = calls w2 @ [EvGetSKU, EvGetPrice, EvParseFloat s]))"
    unfolding GetEC2Price_miss [OF miss] offers
    by (auto split: option.splits sum.splits)
  with files2 show "files w' ?f = files w ?f" by simp
  from w' clock2 show "clock w' = clock w" by simp
  from w' calls2 nowrite
  show "\<exists>evs. calls w' = calls w @ evs \<and> (\<forall>data. EvWriteFile ?f data \<notin> set evs)"
    by auto
qed


text \<open>
  C3: on the path that does not find a fresh file for the query, whenever GetEC2Price
  does not return a price (GetSKU, GetPrice or ParseFloat failed, or GetOffers did; the
  operating system would not have refused the write), the file of the query is what it
  was and no write to it was asked for. So at any later time it is still not fresh, and
  the next call for the query goes to GetOffers again.
\<close>

theorem GetEC2Price_failure_not_cached:
  assumes "\<not> has_fresh w (query_cache_file env it te os tm)"
    and "write_fault env (query_cache_file env it te os tm) = None"
    and "GetEC2Price env it te os tm w = (r, w')"
    and "\<forall>price_f. r \<noteq> Return (Inr price_f)"
  shows "files w' (query_cache_file env it te os tm) = files w (query_cache_file env it te os tm) \<and>
    (\<exists>evs. calls w' = calls w @ evs \<and>
       (\<forall>data. EvWriteFile (query_cache_file env it te os tm) data \<notin> set evs)) \<and>
    (\<forall>later. clock w \<le> later \<longrightarrow>
       \<not> has_fresh (w'\<lparr>clock := later\<rparr>) (query_cache_file env it te os tm) \<and>
       (\<exists>evs. calls (snd (GetEC2Price env it te os tm (w'\<lparr>clock := later\<rparr>))) =
          calls w' @ EvStat (query_cache_file env it te os tm) # EvStat offers_cache_file # evs))"
proof (intro conjI allI impI)
  show same: "files w' (query_cache_file env it te os tm) = files w (query_cache_file env it te os tm)"
    by (rule GetEC2Price_failure_frame(1) [OF assms])
  show "\<exists>evs. calls w' = calls w @ evs \<and>
       (\<forall>data. EvWriteFile (query_cache_file env it te os tm) data \<notin> set evs)"
    by (rule GetEC2Price_failure_frame(3) [OF assms])
  fix later
  assume "clock w \<le> later"
  with assms(1) same show stale: "\<not> has_fresh (w'\<lparr>clock := later\<rparr>) (query_cache_file env it te os tm)"
    by (auto simp: has_fresh_iff)
  from GetEC2Price_miss_calls [OF stale]
  show "\<exists>evs. calls (snd (GetEC2Price env it te os tm (w'\<lparr>clock := later\<rparr>))) =
          calls w' @ EvStat (query_cache_file env it te os tm) # EvStat offers_cache_file # evs"
    by simp
qed

lemma scenario_dedicated_call:
  "fst (GetEC2Price (serving scenario_catalog) ''m4.4xlarge'' ''Dedicated'' ''Linux'' ''OnDemand''
       (empty_cache 0)) = Return (Inl CouldNotFindPrice)"
proof -
  have "\<not> has_fresh (empty_cache 0\<lparr>calls := calls (empty_cache 0) @
      [EvStat (query_cache_file (serving scenario_catalog) ''m4.4xlarge'' ''Dedicated'' ''Linux''
         ''OnDemand'')]\<rparr>) offers_cache_file"
    by (simp add: has_fresh_iff empty_cache_def)
  then show ?thesis
    by (simp add: GetEC2Price_miss [OF empty_cache_not_fresh] GetOffers_stale scenario_GetSKU
        scenario_GetPrice)
qed

text \<open>
  The scenario asked for a Dedicated tenancy: no product matches, the call fails with the
  price-not-found error, and the file of the query is still missing afterwards.
\<close>

theorem GetEC2Price_failure_not_cached_witness:
  "fst (GetEC2Price (serving scenario_catalog) ''m4.4xlarge'' ''Dedicated'' ''Linux'' ''OnDemand''
       (empty_cache 0)) = Return (Inl CouldNotFindPrice) \<and>
   files (snd (GetEC2Price (serving scenario_catalog) ''m4.4xlarge'' ''Dedicated'' ''Linux''
       ''OnDemand'' (empty_cache 0)))
     (query_cache_file (serving scenario_catalog) ''m4.4xlarge'' ''Dedicated'' ''Linux'' ''OnDemand'')
     = None \<and>
   \<not> has_fresh
     ((snd (GetEC2Price (serving scenario_catalog) ''m4.4xlarge'' ''Dedicated'' ''Linux''
       ''OnDemand'' (empty_cache 0)))\<lparr>clock := 1000\<rparr>)
     (query_cache_file (serving scenario_catalog) ''m4.4xlarge'' ''Dedicated'' ''Linux'' ''OnDemand'')"
proof -
  let ?call = "GetEC2Price (serving scenario_catalog) ''m4.4xlarge'' ''Dedicated'' ''Linux''
    ''OnDemand'' (empty_cache 0)"
  have result: "?call = (Return (Inl CouldNotFindPrice), snd ?call)"
    using scenario_dedicated_call by (cases ?call) simp
  have failure: "\<forall>price_f. Return (Inl CouldNotFindPrice) \<noteq> Return (Inr price_f)"
    by simp
  have writable: "write_fault (serving scenario_catalog)
      (query_cache_file (serving scenario_catalog) ''m4.4xlarge'' ''Dedicated'' ''Linux''
         ''OnDemand'') = None"
    by simp
  from GetEC2Price_failure_not_cached [OF empty_cache_not_fresh writable result failure]
  have "files (snd ?call)
      (query_cache_file (serving scenario_catalog) ''m4.4xlarge'' ''Dedicated'' ''Linux''
         ''OnDemand'') = None"
    and "\<not> has_fresh ((snd ?call)\<lparr>clock := 1000\<rparr>)
      (query_cache_file (serving scenario_catalog) ''m4.4xlarge'' ''Dedicated'' ''Linux''
         ''OnDemand'')"
    by (simp_all add: empty_cache_def)
  with scenario_dedicated_call show ?thesis
    by blast
qed

text \<open>
  C4: with the network down, GetOffers returns the error of http.Get to GetEC2Price,
  and GetEC2Price does not return it: the process ends in log.Fatalf. The same happens
  when the bytes fetched do not decode.
\<close>

theorem GetEC2Price_exits_when_GetOffers_fails:
  "fst (GetOffers ((serving scenario_catalog)\<lparr>net_response := \<lambda>url. Inl (FetchFailed ''timeout'')\<rparr>)
         URL (empty_cache 0)) = Inl (FetchFailed ''timeout'') \<and>
   fst (GetEC2Price ((serving scenario_catalog)\<lparr>net_response := \<lambda>url. Inl (FetchFailed ''timeout'')\<rparr>)
         ''m4.4xlarge'' ''Shared'' ''Linux'' ''OnDemand'' (empty_cache 0)) =
     Fatalf (FetchFailed ''timeout'') \<and>
   fst (GetEC2Price
         ((serving scenario_catalog)\<lparr>decode_json := \<lambda>body. Inl (MalformedCatalog ''unexpected end'')\<rparr>)
         ''m4.4xlarge'' ''Shared'' ''Linux'' ''OnDemand'' (empty_cache 0)) =
     Fatalf (MalformedCatalog ''unexpected end'')"
proof -
  have stale: "\<not> has_fresh (empty_cache 0\<lparr>calls := evs\<rparr>) offers_cache_file" for evs
    by (simp add: has_fresh_iff empty_cache_def)
  show ?thesis
    by (simp add: GetEC2Price_miss [OF empty_cache_not_fresh] GetOffers_stale [OF stale]
        GetOffers_stale [OF empty_cache_not_fresh])
qed

text \<open>
  C5: the file of the catalog is there and 1000 nanoseconds old. GetOffers reads it,
  does not fetch, and then writes the bytes it has read back to the same file, which
  stamps the file with the current time.
\<close>

theorem GetOffers_rewrites_fresh_catalog:
  "has_fresh \<lparr>files = [offers_cache_file \<mapsto> \<lparr>content = [123, 125], modtime = 0\<rparr>],
                clock = 1000, calls = []\<rparr> offers_cache_file \<and>
   GetOffers (serving scenario_catalog) URL
       \<lparr>files = [offers_cache_file \<mapsto> \<lparr>content = [123, 125], modtime = 0\<rparr>],
        clock = 1000, calls = []\<rparr> =
     (Inr scenario_catalog,
      \<lparr>files = [offers_cache_file \<mapsto> \<lparr>content = [123, 125], modtime = 1000\<rparr>],
       clock = 1000,
       calls = [EvStat offers_cache_file, EvReadFile offers_cache_file,
                EvWriteFile offers_cache_file [123, 125], EvUnmarshal [123, 125]]\<rparr>)"
  by (simp add: has_fresh_iff MAX_CACHE_AGE_def GetOffers_fresh)

subsection \<open>The name of the file of a query\<close>

lemma hextable_nth_inj:
  "m < 16 \<Longrightarrow> n < 16 \<Longrightarrow> hextable ! m = hextable ! n \<Longrightarrow> m = n"
proof -
  have "distinct hextable" and "length hextable = 16"
    by (simp_all add: hextable_def)
  then show "m < 16 \<Longrightarrow> n < 16 \<Longrightarrow> hextable ! m = hextable ! n \<Longrightarrow> m = n"
    by (simp add: nth_eq_iff_index_eq)
qed

lemma low_nibble_less: "unat ((b :: byte) AND 15) < 16"
proof -
  have "b AND 15 \<le> 15"
    by (rule word_and_le1)
  then have "unat (b AND 15) \<le> unat (15 :: byte)"
    by (simp add: word_le_nat_alt)
  then show ?thesis by simp
qed

lemma byte_of_nibbles:
  fixes b c :: byte
  assumes "drop_bit 4 b = drop_bit 4 c" and "b AND 15 = c AND 15"
  shows "b = c"
proof -
  have low: "take_bit 4 x = x AND 15" for x :: byte
    by (simp add: take_bit_eq_mask mask_eq_exp_minus_1)
  have "b = push_bit 4 (drop_bit 4 b) + take_bit 4 b"
    by (simp add: bits_ident)
  also have "\<dots> = push_bit 4 (drop_bit 4 c) + take_bit 4 c"
    using assms by (simp add: low)
  also have "\<dots> = c"
    by (simp add: bits_ident)
  finally show ?thesis .
qed

lemma hex_digits_inj:
  fixes b c :: byte
  assumes "hextable ! unat (drop_bit 4 b) = hextable ! unat (drop_bit 4 c)"
    and "hextable ! unat (b AND 15) = hextable ! unat (c AND 15)"
  shows "b = c"
proof -
  from assms(1) have "unat (drop_bit 4 b) = unat (drop_bit 4 c)"
    by (rule hextable_nth_inj [OF high_nibble_less high_nibble_less])
  then have high: "drop_bit 4 b = drop_bit 4 c"
    by (simp only: word_unat_eq_iff)
  from assms(2) have "unat (b AND 15) = unat (c AND 15)"
    by (rule hextable_nth_inj [OF low_nibble_less low_nibble_less])
  then have low: "b AND 15 = c AND 15"
    by (simp only: word_unat_eq_iff)
  from high low show ?thesis
    by (rule byte_of_nibbles)
qed

lemma hex_EncodeToString_inj:
  "hex_EncodeToString bs = hex_EncodeToString cs \<Longrightarrow> bs = cs"
proof (induction bs arbitrary: cs)
  case Nil
  then show ?case by (cases cs) simp_all
next
  case (Cons b bs)
  then show ?case
    by (cases cs) (auto dest: hex_digits_inj)
qed

lemma query_cache_file_eq_iff:
  "(query_cache_file env it te os tm = query_cache_file env it' te' os' tm') =
   (md5 env (it @ te @ os @ tm) = md5 env (it' @ te' @ os' @ tm'))"
  by (auto simp: query_cache_file_def GetMD5Hash_def dest: hex_EncodeToString_inj)

text \<open>
  C8: the file of a query is named by the hexadecimal form of the MD5 digest of the four
  fields put together, in the order instance type, tenancy, operating system, term, with
  nothing between them. Two queries have the same file exactly when the digests of their
  fields put together are equal; so queries whose fields put together give the same
  string, equal or not, have the same file, and on a fresh file GetEC2Price answers both
  alike. With the 16 bytes that MD5 gives, the digest has 32 characters and the file name
  50.
\<close>

theorem query_cache_file_of_concatenation:
  "(it @ te @ os @ tm = it' @ te' @ os' @ tm' \<longrightarrow>
      query_cache_file env it te os tm = query_cache_file env it' te' os' tm' \<and>
      (\<forall>w. has_fresh w (query_cache_file env it te os tm) \<longrightarrow>
         GetEC2Price env it te os tm w = GetEC2Price env it' te' os' tm' w)) \<and>
   (length (md5 env (it @ te @ os @ tm)) = 16 \<longrightarrow>
      length (GetMD5Hash env (it @ te @ os @ tm)) = 32 \<and>
      length (query_cache_file env it te os tm) = 50) \<and>
   query_cache_file env it te os tm =
     CACHE_DIR @ ''/'' @ hex_EncodeToString (md5 env (it @ te @ os @ tm)) \<and>
   ((query_cache_file env it te os tm = query_cache_file env it' te' os' tm') =
    (md5 env (it @ te @ os @ tm) = md5 env (it' @ te' @ os' @ tm')))"
proof (intro conjI impI allI)
  assume same: "it @ te @ os @ tm = it' @ te' @ os' @ tm'"
  then show key: "query_cache_file env it te os tm = query_cache_file env it' te' os' tm'"
    by (simp add: query_cache_file_eq_iff)
  fix w
  assume "has_fresh w (query_cache_file env it te os tm)"
  then obtain info where info: "files w (query_cache_file env it te os tm) = Some info"
      "clock w - modtime info < MAX_CACHE_AGE * 1000000000"
    by (auto simp: has_fresh_iff)
  from info have info': "files w (query_cache_file env it' te' os' tm') = Some info"
    by (simp add: key)
  show "GetEC2Price env it te os tm w = GetEC2Price env it' te' os' tm' w"
    by (simp add: GetEC2Price_cached [OF info] GetEC2Price_cached [OF info' info(2)] key)
next
  have len: "length (hex_EncodeToString bs) = 2 * length bs" for bs
    by (induction bs) simp_all
  assume "length (md5 env (it @ te @ os @ tm)) = 16"
  then show "length (GetMD5Hash env (it @ te @ os @ tm)) = 32"
    and "length (query_cache_file env it te os tm) = 50"
    by (simp_all add: query_cache_file_def GetMD5Hash_def len CACHE_DIR_def)
next
  show "query_cache_file env it te os tm =
     CACHE_DIR @ ''/'' @ hex_EncodeToString (md5 env (it @ te @ os @ tm))"
    by (simp add: query_cache_file_def GetMD5Hash_def)
  show "(query_cache_file env it te os tm = query_cache_file env it' te' os' tm') =
    (md5 env (it @ te @ os @ tm) = md5 env (it' @ te' @ os' @ tm'))"
    by (rule query_cache_file_eq_iff)
qed

text \<open>
  The default query and the query with tenancy SharedLinux and no operating system are
  different and have the same file, whose name is computed here with the stand-in digest;
  the query for a Dedicated tenancy has another digest and another file.
\<close>

theorem query_cache_file_of_concatenation_witness:
  "(''m4.4xlarge'', ''Shared'', ''Linux'', ''OnDemand'') \<noteq>
     (''m4.4xlarge'', ''SharedLinux'', [], ''OnDemand'') \<and>
   query_cache_file (serving scenario_catalog) ''m4.4xlarge'' ''Shared'' ''Linux'' ''OnDemand'' =
     query_cache_file (serving scenario_catalog) ''m4.4xlarge'' ''SharedLinux'' [] ''OnDemand'' \<and>
   length (md5 (serving scenario_catalog) (''m4.4xlarge'' @ ''Shared'' @ ''Linux'' @ ''OnDemand'')) = 16 \<and>
   length (query_cache_file (serving scenario_catalog) ''m4.4xlarge'' ''Shared'' ''Linux''
     ''OnDemand'') = 50 \<and>
   md5 (serving scenario_catalog) (''m4.4xlarge'' @ ''Shared'' @ ''Linux'' @ ''OnDemand'') \<noteq>
     md5 (serving scenario_catalog) (''m4.4xlarge'' @ ''Dedicated'' @ ''Linux'' @ ''OnDemand'') \<and>
   query_cache_file (serving scenario_catalog) ''m4.4xlarge'' ''Shared'' ''Linux'' ''OnDemand'' \<noteq>
     query_cache_file (serving scenario_catalog) ''m4.4xlarge'' ''Dedicated'' ''Linux'' ''OnDemand'' \<and>
   query_cache_file (serving scenario_catalog) ''m4.4xlarge'' ''Shared'' ''Linux'' ''OnDemand'' =
     ''/tmp/.aws_pricing/6d342e34786c61726765536861726564''"
proof -
  have same: "''m4.4xlarge'' @ ''Shared'' @ ''Linux'' @ ''OnDemand'' =
      ''m4.4xlarge'' @ ''SharedLinux'' @ [] @ ''OnDemand''"
    by simp
  have len: "length (md5 (serving scenario_catalog)
      (''m4.4xlarge'' @ ''Shared'' @ ''Linux'' @ ''OnDemand'')) = 16"
    by (simp add: serving_def leading_bytes_def)
  have digest: "md5 (serving scenario_catalog) (''m4.4xlarge'' @ ''Shared'' @ ''Linux'' @ ''OnDemand'') =
      [109, 52, 46, 52, 120, 108, 97, 114, 103, 101, 83, 104, 97, 114, 101, 100]"
    by (simp add: serving_def leading_bytes_def)
  have other: "md5 (serving scenario_catalog)
      (''m4.4xlarge'' @ ''Dedicated'' @ ''Linux'' @ ''OnDemand'') =
      [109, 52, 46, 52, 120, 108, 97, 114, 103, 101, 68, 101, 100, 105, 99, 97]"
    by (simp add: serving_def leading_bytes_def)
  from digest other
  have differ: "md5 (serving scenario_catalog) (''m4.4xlarge'' @ ''Shared'' @ ''Linux'' @ ''OnDemand'') \<noteq>
     md5 (serving scenario_catalog) (''m4.4xlarge'' @ ''Dedicated'' @ ''Linux'' @ ''OnDemand'')"
    by simp
  note shared = query_cache_file_of_concatenation [where env = "serving scenario_catalog"
      and it = "''m4.4xlarge''" and te = "''Shared''" and os = "''Linux''" and tm = "''OnDemand''"
      and it' = "''m4.4xlarge''" and te' = "''SharedLinux''" and os' = "[]" and tm' = "''OnDemand''"]
  note apart = query_cache_file_of_concatenation [where env = "serving scenario_catalog"
      and it = "''m4.4xlarge''" and te = "''Shared''" and os = "''Linux''" and tm = "''OnDemand''"
      and it' = "''m4.4xlarge''" and te' = "''Dedicated''" and os' = "''Linux''" and tm' = "''OnDemand''"]
  from shared same len
  have one: "query_cache_file (serving scenario_catalog) ''m4.4xlarge'' ''Shared'' ''Linux'' ''OnDemand'' =
     query_cache_file (serving scenario_catalog) ''m4.4xlarge'' ''SharedLinux'' [] ''OnDemand''"
    and fifty: "length (query_cache_file (serving scenario_catalog) ''m4.4xlarge'' ''Shared'' ''Linux''
     ''OnDemand'') = 50"
    by blast+
  from apart differ
  have two: "query_cache_file (serving scenario_catalog) ''m4.4xlarge'' ''Shared'' ''Linux'' ''OnDemand'' \<noteq>
     query_cache_file (serving scenario_catalog) ''m4.4xlarge'' ''Dedicated'' ''Linux'' ''OnDemand''"
    by blast
  from shared [THEN conjunct2, THEN conjunct2, THEN conjunct1]
  have name: "query_cache_file (serving scenario_catalog) ''m4.4xlarge'' ''Shared'' ''Linux'' ''OnDemand'' =
     ''/tmp/.aws_pricing/6d342e34786c61726765536861726564''"
    by (simp add: serving_def leading_bytes_def CACHE_DIR_def hextable_def)
  from len one fifty differ two name show ?thesis
    by simp
qed

subsection \<open>Bytes that do not decode\<close>

lemma empty_cache_files: "files (empty_cache now) = Map.empty"
  by (simp add: empty_cache_def)

text \<open>
  C9: when the catalog file is not fresh, the fetch succeeds, the write is not refused
  and the bytes do not decode, GetOffers returns the decoding error after it has written
  the bytes: the catalog file now holds them, stamped with the current time, which is not
  what it held before. A later call that finds the file fresh (and readable) does not
  fetch: it reads the same bytes and fails with the same error.
\<close>

theorem GetOffers_persists_before_decoding:
  assumes "\<not> has_fresh w offers_cache_file"
    and "net_response env url = Inr (Inr body)"
    and "write_fault env offers_cache_file = None"
    and "decode_json env body = Inl err"
  shows "GetOffers env url w =
      (Inl err,
       w\<lparr>files := (files w)(offers_cache_file \<mapsto> \<lparr>content = body, modtime = clock w\<rparr>),
         calls := calls w @ [EvStat offers_cache_file, EvHttpGet url,
                             EvWriteFile offers_cache_file body, EvUnmarshal body]\<rparr>) \<and>
    files (snd (GetOffers env url w)) offers_cache_file \<noteq> files w offers_cache_file \<and>
    (\<forall>later. later - clock w < MAX_CACHE_AGE * 1000000000 \<and>
        read_fault env offers_cache_file = None \<longrightarrow>
      GetOffers env url ((snd (GetOffers env url w))\<lparr>clock := later\<rparr>) =
        (Inl err,
         (snd (GetOffers env url w))
           \<lparr>clock := later,
            files := (files w)(offers_cache_file \<mapsto> \<lparr>content = body, modtime = later\<rparr>),
            calls := calls (snd (GetOffers env url w)) @
              [EvStat offers_cache_file, EvReadFile offers_cache_file,
               EvWriteFile offers_cache_file body, EvUnmarshal body]\<rparr>))"
proof -
  let ?w1 = "w\<lparr>files := (files w)(offers_cache_file \<mapsto> \<lparr>content = body, modtime = clock w\<rparr>),
         calls := calls w @ [EvStat offers_cache_file, EvHttpGet url,
                             EvWriteFile offers_cache_file body, EvUnmarshal body]\<rparr>"
  have first: "GetOffers env url w = (Inl err, ?w1)"
    using assms by (simp add: GetOffers_stale)
  have changed: "files ?w1 offers_cache_file \<noteq> files w offers_cache_file"
  proof (cases "files w offers_cache_file")
    case None
    then show ?thesis by simp
  next
    case (Some info)
    with assms(1) have "modtime info \<noteq> clock w"
      by (auto simp: has_fresh_iff MAX_CACHE_AGE_def)
    with Some show ?thesis by auto
  qed
  have again: "GetOffers env url (?w1\<lparr>clock := later\<rparr>) =
        (Inl err,
         ?w1\<lparr>clock := later,
            files := (files w)(offers_cache_file \<mapsto> \<lparr>content = body, modtime = later\<rparr>),
            calls := calls ?w1 @
              [EvStat offers_cache_file, EvReadFile offers_cache_file,
               EvWriteFile offers_cache_file body, EvUnmarshal body]\<rparr>)"
    if "later - clock w < MAX_CACHE_AGE * 1000000000"
      and "read_fault env offers_cache_file = None" for later
  proof -
    have held: "files (?w1\<lparr>clock := later\<rparr>) offers_cache_file =
        Some \<lparr>content = body, modtime = clock w\<rparr>"
      by simp
    have young: "clock (?w1\<lparr>clock := later\<rparr>) - modtime \<lparr>content = body, modtime = clock w\<rparr>
        < MAX_CACHE_AGE * 1000000000"
      using that(1) by simp
    show ?thesis
      using that(2) assms(3,4) by (simp add: GetOffers_fresh [OF held young])
  qed
  from first changed again show ?thesis
    by simp
qed

text \<open>
  On an empty cache, with bytes that do not decode: the first call fetches and fails,
  leaving the bytes; a call 1000 nanoseconds later fails alike and its trace has a read
  and no fetch.
\<close>

theorem GetOffers_persists_before_decoding_witness:
  "GetOffers ((serving scenario_catalog)\<lparr>decode_json := \<lambda>body. Inl (MalformedCatalog ''unexpected end'')\<rparr>)
       URL (empty_cache 0) =
     (Inl (MalformedCatalog ''unexpected end''),
      \<lparr>files = [offers_cache_file \<mapsto> \<lparr>content = [123, 125], modtime = 0\<rparr>], clock = 0,
       calls = [EvStat offers_cache_file, EvHttpGet URL, EvWriteFile offers_cache_file [123, 125],
                EvUnmarshal [123, 125]]\<rparr>) \<and>
   GetOffers ((serving scenario_catalog)\<lparr>decode_json := \<lambda>body. Inl (MalformedCatalog ''unexpected end'')\<rparr>)
       URL
       \<lparr>files = [offers_cache_file \<mapsto> \<lparr>content = [123, 125], modtime = 0\<rparr>], clock = 1000,
        calls = [EvStat offers_cache_file, EvHttpGet URL, EvWriteFile offers_cache_file [123, 125],
                 EvUnmarshal [123, 125]]\<rparr> =
     (Inl (MalformedCatalog ''unexpected end''),
      \<lparr>files = [offers_cache_file \<mapsto> \<lparr>content = [123, 125], modtime = 1000\<rparr>], clock = 1000,
       calls = [EvStat offers_cache_file, EvHttpGet URL, EvWriteFile offers_cache_file [123, 125],
                EvUnmarshal [123, 125], EvStat offers_cache_file, EvReadFile offers_cache_file,
                EvWriteFile offers_cache_file [123, 125], EvUnmarshal [123, 125]]\<rparr>)"
proof -
  let ?env = "(serving scenario_catalog)\<lparr>decode_json := \<lambda>body. Inl (MalformedCatalog ''unexpected end'')\<rparr>"
  have fetched: "net_response ?env URL = Inr (Inr [123, 125])"
    and writable: "write_fault ?env offers_cache_file = None"
    and readable: "read_fault ?env offers_cache_file = None"
    and corrupt: "decode_json ?env [123, 125] = Inl (MalformedCatalog ''unexpected end'')"
    by simp_all
  note C9 = GetOffers_persists_before_decoding [OF empty_cache_not_fresh fetched writable corrupt,
      where now1 = 0]
  from C9 have first: "GetOffers ?env URL (empty_cache 0) =
     (Inl (MalformedCatalog ''unexpected end''),
      \<lparr>files = [offers_cache_file \<mapsto> \<lparr>content = [123, 125], modtime = 0\<rparr>], clock = 0,
       calls = [EvStat offers_cache_file, EvHttpGet URL, EvWriteFile offers_cache_file [123, 125],
                EvUnmarshal [123, 125]]\<rparr>)"
    by (simp add: empty_cache_def)
  from C9 [THEN conjunct2, THEN conjunct2, rule_format, of 1000] readable
  have "GetOffers ?env URL ((snd (GetOffers ?env URL (empty_cache 0)))\<lparr>clock := 1000\<rparr>) =
        (Inl (MalformedCatalog ''unexpected end''),
         (snd (GetOffers ?env URL (empty_cache 0)))
           \<lparr>clock := 1000,
            files := (files (empty_cache 0))(offers_cache_file \<mapsto> \<lparr>content = [123, 125], modtime = 1000\<rparr>),
            calls := calls (snd (GetOffers ?env URL (empty_cache 0))) @
              [EvStat offers_cache_file, EvReadFile offers_cache_file,
               EvWriteFile offers_cache_file [123, 125], EvUnmarshal [123, 125]]\<rparr>)"
    by (simp add: empty_cache_def MAX_CACHE_AGE_def)
  then have second: "GetOffers ?env URL
       \<lparr>files = [offers_cache_file \<mapsto> \<lparr>content = [123, 125], modtime = 0\<rparr>], clock = 1000,
        calls = [EvStat offers_cache_file, EvHttpGet URL, EvWriteFile offers_cache_file [123, 125],
                 EvUnmarshal [123, 125]]\<rparr> =
     (Inl (MalformedCatalog ''unexpected end''),
      \<lparr>files = [offers_cache_file \<mapsto> \<lparr>content = [123, 125], modtime = 1000\<rparr>], clock = 1000,
       calls = [EvStat offers_cache_file, EvHttpGet URL, EvWriteFile offers_cache_file [123, 125],
                EvUnmarshal [123, 125], EvStat offers_cache_file, EvReadFile offers_cache_file,
                EvWriteFile offers_cache_file [123, 125], EvUnmarshal [123, 125]]\<rparr>)"
    using first by (simp add: empty_cache_files)
  from first second show ?thesis
    by blast
qed


subsection \<open>A product without a SKU\<close>

text \<open>
  The claim C10 as written fails: in the catalog whose only product has no SKU, a price
  is filed under the empty SKU; GetSKU returns the empty SKU, GetPrice finds that
  price, and GetEC2Price returns it instead of failing.
\<close>

theorem GetEC2Price_prices_the_empty_sku:
  "matching_products unnamed_sku_catalog ''m4.4xlarge'' ''Shared'' ''Linux'' =
     [(''A'', m4_product [] ''Shared'')] \<and>
   SKU (m4_product [] ''Shared'') = [] \<and>
   GetSKU unnamed_sku_catalog ''m4.4xlarge'' ''Shared'' ''Linux'' = Inr [] \<and>
   GetPrice unnamed_sku_catalog [] ''OnDemand'' = Inr \<lparr>Currency = ''USD'', Value = ''0.956''\<rparr> \<and>
   fst (GetEC2Price (serving unnamed_sku_catalog) ''m4.4xlarge'' ''Shared'' ''Linux'' ''OnDemand''
          (empty_cache 0)) = Return (Inr 0x3FEE978D4FDF3B64)"
proof -
  have products: "matching_products unnamed_sku_catalog ''m4.4xlarge'' ''Shared'' ''Linux'' =
     [(''A'', m4_product [] ''Shared'')]"
    by (simp add: matching_products_def matches_def attribute_def AWS_LOCATION_def
        unnamed_sku_catalog_def catalog_def m4_product_def)
  have sku: "GetSKU unnamed_sku_catalog ''m4.4xlarge'' ''Shared'' ''Linux'' = Inr []"
    by (simp add: GetSKU_def matches_def attribute_def AWS_LOCATION_def
        unnamed_sku_catalog_def catalog_def m4_product_def)
  have price: "GetPrice unnamed_sku_catalog [] ''OnDemand'' =
      Inr \<lparr>Currency = ''USD'', Value = ''0.956''\<rparr>"
    by (simp add: GetPrice_def Terms_at_def unnamed_sku_catalog_def catalog_def priced_term_def)
  have stale: "\<not> has_fresh (empty_cache 0\<lparr>calls := evs\<rparr>) offers_cache_file" for evs
    by (simp add: has_fresh_iff empty_cache_def)
  have "fst (GetEC2Price (serving unnamed_sku_catalog) ''m4.4xlarge'' ''Shared'' ''Linux''
      ''OnDemand'' (empty_cache 0)) = Return (Inr 0x3FEE978D4FDF3B64)"
    by (simp add: GetEC2Price_miss [OF empty_cache_not_fresh] GetOffers_stale [OF stale] sku price)
  with products sku price show ?thesis
    by (simp add: m4_product_def)
qed

text \<open>
  C10, amended: when exactly one product matches and its SKU is empty, GetSKU returns
  the empty SKU and no error, and GetEC2Price goes on to GetPrice with the empty SKU:
  it returns the price-not-found error when GetPrice finds no price under the empty SKU,
  and the parsed price when GetPrice finds one (and it parses and can be written). GetSKU
  fails, for any catalog, only when a matching product visited before another one has a
  non-empty SKU.
\<close>

theorem GetSKU_found_only_by_nonempty_sku:
  assumes "matching_products offer it te os = [(key, product)]"
    and "SKU product = []"
  shows "GetSKU offer it te os = Inr [] \<and>
    (\<forall>env tm w.
       \<not> has_fresh w (query_cache_file env it te os tm) \<and>
       fst (GetOffers env URL (snd (os_Stat (query_cache_file env it te os tm) w))) = Inr offer \<longrightarrow>
       (GetPrice offer [] tm = Inl CouldNotFindPrice \<longrightarrow>
          fst (GetEC2Price env it te os tm w) = Return (Inl CouldNotFindPrice)) \<and>
       (\<forall>price price_f.
          GetPrice offer [] tm = Inr price \<and> parse_float env (Value price) = Inr price_f \<and>
          write_fault env (query_cache_file env it te os tm) = None \<longrightarrow>
          fst (GetEC2Price env it te os tm w) = Return (Inr price_f))) \<and>
    (\<forall>any err. GetSKU any it te os = Inl err \<longrightarrow>
       err = MoreThanOneSKU \<and>
       (\<exists>entry \<in> set (butlast (matching_products any it te os)). SKU (snd entry) \<noteq> []))"
proof (intro conjI allI impI)
  from assms show sku: "GetSKU offer it te os = Inr []"
    by (simp add: GetSKU_eq)
  show "err = MoreThanOneSKU"
    and "\<exists>entry \<in> set (butlast (matching_products any it te os)). SKU (snd entry) \<noteq> []"
    if "GetSKU any it te os = Inl err" for any err
    using that by (simp_all add: GetSKU_eq Let_def split: if_splits)
  fix env tm w
  assume "\<not> has_fresh w (query_cache_file env it te os tm) \<and>
       fst (GetOffers env URL (snd (os_Stat (query_cache_file env it te os tm) w))) = Inr offer"
  then have miss: "\<not> has_fresh w (query_cache_file env it te os tm)"
    and "fst (GetOffers env URL (w\<lparr>calls := calls w @ [EvStat (query_cache_file env it te os tm)]\<rparr>))
      = Inr offer"
    by (simp_all add: os_Stat_def record_call_def)
  then obtain w2 where offers:
    "GetOffers env URL (w\<lparr>calls := calls w @ [EvStat (query_cache_file env it te os tm)]\<rparr>)
      = (Inr offer, w2)"
    by (cases "GetOffers env URL (w\<lparr>calls := calls w @ [EvStat (query_cache_file env it te os tm)]\<rparr>)")
      simp
  show "fst (GetEC2Price env it te os tm w) = Return (Inl CouldNotFindPrice)"
    if "GetPrice offer [] tm = Inl CouldNotFindPrice"
    using that by (simp add: GetEC2Price_miss [OF miss] offers sku)
  show "fst (GetEC2Price env it te os tm w) = Return (Inr price_f)"
    if "GetPrice offer [] tm = Inr price \<and> parse_float env (Value price) = Inr price_f \<and>
          write_fault env (query_cache_file env it te os tm) = None" for price price_f
    using that by (simp add: GetEC2Price_miss [OF miss] offers sku)
qed


text \<open>
  A catalog whose only product has no SKU and no price: the call fails with the
  price-not-found error. With the price filed under the empty SKU the call returns it.
  And a named product visited before an unnamed one makes GetSKU fail.
\<close>

theorem GetSKU_found_only_by_nonempty_sku_witness:
  "GetSKU (catalog [(''A'', m4_product [] ''Shared'')] Map.empty) ''m4.4xlarge'' ''Shared'' ''Linux''
     = Inr [] \<and>
   fst (GetEC2Price (serving (catalog [(''A'', m4_product [] ''Shared'')] Map.empty))
          ''m4.4xlarge'' ''Shared'' ''Linux'' ''OnDemand'' (empty_cache 0)) =
     Return (Inl CouldNotFindPrice) \<and>
   fst (GetEC2Price (serving unnamed_sku_catalog) ''m4.4xlarge'' ''Shared'' ''Linux'' ''OnDemand''
          (empty_cache 0)) = Return (Inr 0x3FEE978D4FDF3B64) \<and>
   GetSKU (catalog [(''A'', m4_product ''A'' ''Shared''), (''B'', m4_product [] ''Shared'')]
      Map.empty) ''m4.4xlarge'' ''Shared'' ''Linux'' = Inl MoreThanOneSKU \<and>
   (\<exists>entry \<in> set (butlast (matching_products
      (catalog [(''A'', m4_product ''A'' ''Shared''), (''B'', m4_product [] ''Shared'')] Map.empty)
      ''m4.4xlarge'' ''Shared'' ''Linux'')). SKU (snd entry) \<noteq> [])"
proof -
  let ?bare = "catalog [(''A'', m4_product [] ''Shared'')] Map.empty"
  have unnamed: "SKU (m4_product [] ''Shared'') = []"
    by (simp add: m4_product_def)
  have bare: "matching_products ?bare ''m4.4xlarge'' ''Shared'' ''Linux'' =
      [(''A'', m4_product [] ''Shared'')]"
    by (simp add: matching_products_def matches_def attribute_def AWS_LOCATION_def catalog_def
        m4_product_def)
  have priced: "matching_products unnamed_sku_catalog ''m4.4xlarge'' ''Shared'' ''Linux'' =
      [(''A'', m4_product [] ''Shared'')]"
    by (simp add: matching_products_def matches_def attribute_def AWS_LOCATION_def
        unnamed_sku_catalog_def catalog_def m4_product_def)
  have fetched: "fst (GetOffers (serving offer) URL (snd (os_Stat name (empty_cache 0)))) = Inr offer"
    for offer name
  proof -
    have "\<not> has_fresh (snd (os_Stat name (empty_cache 0))) offers_cache_file"
      by (simp add: has_fresh_iff os_Stat_def record_call_def empty_cache_def)
    then show ?thesis
      by (simp add: GetOffers_stale)
  qed
  have no_price: "GetPrice ?bare [] ''OnDemand'' = Inl CouldNotFindPrice"
    by (simp add: GetPrice_def Terms_at_def catalog_def)
  have price: "GetPrice unnamed_sku_catalog [] ''OnDemand'' =
      Inr \<lparr>Currency = ''USD'', Value = ''0.956''\<rparr>"
    by (simp add: GetPrice_def Terms_at_def unnamed_sku_catalog_def catalog_def priced_term_def)
  note on_bare = GetSKU_found_only_by_nonempty_sku [OF bare unnamed]
  note on_priced = GetSKU_found_only_by_nonempty_sku [OF priced unnamed]
  from on_bare have first: "GetSKU ?bare ''m4.4xlarge'' ''Shared'' ''Linux'' = Inr []"
    by blast
  from on_bare [THEN conjunct2, THEN conjunct1, rule_format,
      where env = "serving ?bare" and tm = "''OnDemand''" and w = "empty_cache 0",
      THEN conjunct1]
  have second: "fst (GetEC2Price (serving ?bare) ''m4.4xlarge'' ''Shared'' ''Linux'' ''OnDemand''
      (empty_cache 0)) = Return (Inl CouldNotFindPrice)"
    using empty_cache_not_fresh fetched no_price by blast
  from on_priced [THEN conjunct2, THEN conjunct1, rule_format,
      where env = "serving unnamed_sku_catalog" and tm = "''OnDemand''" and w = "empty_cache 0",
      THEN conjunct2, rule_format,
      where price = "\<lparr>Currency = ''USD'', Value = ''0.956''\<rparr>" and price_f = "0x3FEE978D4FDF3B64"]
  have third: "fst (GetEC2Price (serving unnamed_sku_catalog) ''m4.4xlarge'' ''Shared'' ''Linux''
      ''OnDemand'' (empty_cache 0)) = Return (Inr 0x3FEE978D4FDF3B64)"
    using empty_cache_not_fresh fetched price by simp
  have failed: "GetSKU (catalog [(''A'', m4_product ''A'' ''Shared''),
      (''B'', m4_product [] ''Shared'')] Map.empty) ''m4.4xlarge'' ''Shared'' ''Linux'' =
      Inl MoreThanOneSKU"
    by (simp add: GetSKU_def matches_def attribute_def AWS_LOCATION_def catalog_def
        m4_product_def)
  from on_bare [THEN conjunct2, THEN conjunct2, rule_format, OF failed]
  have fourth: "\<exists>entry \<in> set (butlast (matching_products
      (catalog [(''A'', m4_product ''A'' ''Shared''), (''B'', m4_product [] ''Shared'')] Map.empty)
      ''m4.4xlarge'' ''Shared'' ''Linux'')). SKU (snd entry) \<noteq> []"
    by blast
  from first second third failed fourth show ?thesis
    by blast
qed

end
